theory Spec2Isabelle
  imports Main
begin

section \<open>JavaScript values\<close>

text \<open>
  A JavaScript number is \<open>NaN\<close>, one of the two infinities, or a finite number. A
  finite number is given by the decimal JavaScript prints for it: \<open>Decimal m e\<close> is the
  number printed as \<open>m \<times> 10\<^sup>e\<close>, so \<open>10\<close> is \<open>Decimal 10 0\<close>, \<open>2.5\<close> is \<open>Decimal 25 (-1)\<close> and
  \<open>1e21\<close> is \<open>Decimal 1 21\<close>. Zero carries no sign: \<open>-0\<close> prints as \<open>0\<close> and is not less than
  \<open>0\<close>.
\<close>

datatype jsnumber =
    NaN
  | Infinity
  | NegInfinity
  | Decimal int int

text \<open>
  The values the query service receives at run time. An object is the list of its own
  entries in \<open>Object.entries\<close> order, or a finite map where only lookups matter.
\<close>

datatype jsvalue =
    JUndefined
  | JNull
  | JBool bool
  | JNum jsnumber
  | JStr string
  | JArr "jsvalue list"
  | JObj "(string \<times> jsvalue) list"

abbreviation JInt :: "int \<Rightarrow> jsvalue" where
  "JInt n \<equiv> JNum (Decimal n 0)"

text \<open>
  lodash \<open>isNumber\<close>: true of every value of type number, \<open>NaN\<close> and the infinities
  included, and of nothing else; a numeric string is not a number.
\<close>

fun isNumber :: "jsvalue \<Rightarrow> bool" where
  "isNumber (JNum x) = True"
| "isNumber v = False"

text \<open>The first digit of a positive integer written in decimal.\<close>

fun leadingDigit :: "nat \<Rightarrow> nat" where
  "leadingDigit a = (if a < 10 then a else leadingDigit (a div 10))"

declare leadingDigit.simps [simp del]

text \<open>
  \<open>parseInt(x, 10)\<close> on a number \<open>x\<close>; \<open>None\<close> is the result \<open>NaN\<close>. The number is
  first printed and the printed text parsed: a sign and the digits up to the first
  character that is not a digit. \<open>NaN\<close> and the infinities print as words, which gives
  \<open>NaN\<close>. A finite number of magnitude from \<open>10\<^sup>-\<^sup>6\<close> up to, not including,
  \<open>10\<^sup>2\<^sup>1\<close> prints in positional notation, which gives the number with its fraction cut
  off; any other finite number but zero prints in exponent notation, one digit before
  the point, which gives its first digit.
\<close>

fun parseInt10 :: "jsnumber \<Rightarrow> int option" where
  "parseInt10 NaN = None"
| "parseInt10 Infinity = None"
| "parseInt10 NegInfinity = None"
| "parseInt10 (Decimal m e) =
     (if m = 0 then Some 0
      else if 0 \<le> e then
        (if \<bar>m\<bar> * 10 ^ nat e < 10 ^ 21 then Some (m * 10 ^ nat e)
         else Some (sgn m * int (leadingDigit (nat \<bar>m\<bar>))))
      else
        (let d = 10 ^ nat (- e) in
         if \<bar>m\<bar> < 10 ^ 21 * d \<and> d \<le> \<bar>m\<bar> * 10 ^ 6 then Some (sgn m * (\<bar>m\<bar> div d))
         else Some (sgn m * int (leadingDigit (nat \<bar>m\<bar>)))))"

text \<open>A thrown \<open>Error\<close> carries its message.\<close>

datatype error = Error string

text \<open>\<open>Object.fromEntries\<close>: a later entry replaces an earlier one with the same key.\<close>

definition fromEntries :: "('k \<times> 'v) list \<Rightarrow> ('k \<rightharpoonup> 'v)" where
  "fromEntries kvs = map_of (rev kvs)"

section \<open>The query builder\<close>

text \<open>
  The state of a knex query builder: what \<open>table\<close>, \<open>select\<close>, \<open>limit\<close>, \<open>offset\<close>,
  \<open>where\<close>, \<open>whereIn\<close>, \<open>orderBy\<close>, \<open>insert\<close>, \<open>update\<close>, \<open>delete\<close> and \<open>returning\<close>
  have recorded so far. A field is \<open>None\<close> while its method has not set it.
  \<open>where(column, value)\<close> is \<open>WhereEq\<close>, \<open>where(column, operator, value)\<close> is \<open>Where\<close>.
\<close>

datatype WhereClause =
    Where string string string
  | WhereEq string string
  | WhereIn string "int list"

datatype Method =
    SelectRows
  | Insert jsvalue
  | Update jsvalue
  | Delete

record Query =
  qTable :: "string option"
  qMethod :: Method
  qSelect :: "string list option"
  qLimit :: "int option"
  qOffset :: "int option"
  qWhere :: "WhereClause list"
  qOrderBy :: "(string \<times> string) list"
  qReturning :: "string option"

text \<open>\<open>this.client\<close>: a builder on which nothing has been called yet.\<close>

definition knex_client :: Query where
  "knex_client =
     \<lparr>qTable = None, qMethod = SelectRows, qSelect = None, qLimit = None, qOffset = None,
      qWhere = [], qOrderBy = [], qReturning = None\<rparr>"

definition knex_table :: "string \<Rightarrow> Query \<Rightarrow> Query" where
  "knex_table tName q = q\<lparr>qTable := Some tName\<rparr>"

text \<open>
  \<open>limit(value)\<close> and \<open>offset(value)\<close> of the builder, on a number, which is what
  \<open>getRecords\<close> calls them with. Both take \<open>parseInt(value, 10)\<close>. When that is \<open>NaN\<close>
  they log a warning and leave the builder as it is. Otherwise \<open>limit\<close> stores the
  integer, and \<open>offset\<close> stores it unless it is negative, on which it throws.
\<close>

definition knex_limit :: "jsnumber \<Rightarrow> Query \<Rightarrow> Query" where
  "knex_limit v q =
     (case parseInt10 v of
        None \<Rightarrow> q
      | Some val \<Rightarrow> q\<lparr>qLimit := Some val\<rparr>)"

definition knex_offset :: "jsnumber \<Rightarrow> Query \<Rightarrow> error + Query" where
  "knex_offset v q =
     (case parseInt10 v of
        None \<Rightarrow> Inr q
      | Some val \<Rightarrow>
          if val < 0 then Inl (Error ''A non-negative integer must be provided to offset.'')
          else Inr (q\<lparr>qOffset := Some val\<rparr>))"

definition knex_select :: "string list \<Rightarrow> Query \<Rightarrow> Query" where
  "knex_select cols q =
     q\<lparr>qSelect := Some (case qSelect q of None \<Rightarrow> cols | Some old \<Rightarrow> old @ cols)\<rparr>"

definition knex_where :: "WhereClause \<Rightarrow> Query \<Rightarrow> Query" where
  "knex_where w q = q\<lparr>qWhere := qWhere q @ [w]\<rparr>"

definition knex_orderBy :: "string \<Rightarrow> string \<Rightarrow> Query \<Rightarrow> Query" where
  "knex_orderBy col dir q = q\<lparr>qOrderBy := qOrderBy q @ [(col, dir)]\<rparr>"

definition knex_insert :: "jsvalue \<Rightarrow> Query \<Rightarrow> Query" where
  "knex_insert d q = q\<lparr>qMethod := Insert d\<rparr>"

definition knex_update :: "jsvalue \<Rightarrow> Query \<Rightarrow> Query" where
  "knex_update d q = q\<lparr>qMethod := Update d\<rparr>"

definition knex_delete :: "Query \<Rightarrow> Query" where
  "knex_delete q = q\<lparr>qMethod := Delete\<rparr>"

definition knex_returning :: "string \<Rightarrow> Query \<Rightarrow> Query" where
  "knex_returning col q = q\<lparr>qReturning := Some col\<rparr>"

section \<open>The live schema and the service\<close>

text \<open>
  What the engine reports. \<open>ColumnInfo\<close> is knex's column description, of which the
  pipeline reads \<open>type\<close>; \<open>InspectorColumn\<close> and \<open>InspectorForeignKey\<close> are the schema
  inspector's rows, with the fields the service reads.
\<close>

record ColumnInfo =
  type :: string
  maxLength :: "int option"
  nullable :: bool
  defaultValue :: jsvalue

record InspectorColumn =
  name :: string
  data_type :: string
  is_primary_key :: bool

record InspectorForeignKey =
  table :: string
  column :: string
  foreign_key_schema :: "string option"
  foreign_key_table :: string
  foreign_key_column :: string
  constraint_name :: "string option"
  on_update :: "string option"
  on_delete :: "string option"

text \<open>
  The service's two handles on the database. \<open>client_columnInfo t\<close> is the object
  \<open>client.table(t).columnInfo()\<close> resolves to, as the list of its entries;
  \<open>inspector_columnInfo t\<close> and \<open>inspector_foreignKeys\<close> are the inspector's answers;
  \<open>client_execute q\<close> is what awaiting the builder \<open>q\<close> resolves to.
\<close>

record QueryService =
  client_columnInfo :: "string \<Rightarrow> (string \<times> ColumnInfo) list"
  inspector_columnInfo :: "string \<Rightarrow> InspectorColumn list"
  inspector_foreignKeys :: "InspectorForeignKey list"
  client_execute :: "Query \<Rightarrow> jsvalue"

section \<open>Columns\<close>

record ForeignKeyInfo =
  constraintName :: "string option"
  tableName :: string
  columnName :: string
  foreignTableName :: string
  foreignColumnName :: string
  foreignTableSchema :: "string option"
  onUpdate :: "string option"
  onDelete :: "string option"

text \<open>
  Modelled from the spec: the type \<open>FieldType\<close> (features/fields/types) is not among the
  source files. It is the fixed enumeration of semantic field types, a union of
  non-empty string literals; these are the members the service names. A value of the
  type is therefore always truthy, and \<open>||\<close> on an optional \<open>FieldType\<close> only tests
  whether it is there.
\<close>

datatype FieldType =
    Id'
  | Text
  | Number
  | Boolean
  | DateTime
  | Json
  | Textarea
  | Select
  | Association

type_synonym Options = "string \<rightharpoonup> jsvalue"

text \<open>
  The intermediate column types of the pipeline, each the one before with a field
  more, as the source's object spreads build them.
\<close>

record ColumnWithSourceInfo =
  name :: string
  label :: string
  dataSourceInfo :: ColumnInfo
  primaryKey :: bool

record ColumnWithForeignKeyInfo = ColumnWithSourceInfo +
  foreignKeyInfo :: "ForeignKeyInfo option"

record ColumnWithBaseOptions = ColumnWithForeignKeyInfo +
  baseOptions :: Options

record ColumnWithFieldType = ColumnWithBaseOptions +
  fieldType :: FieldType

record ColumnWithFieldOptions = ColumnWithFieldType +
  fieldOptions :: Options

type_synonym ColumnWithStoredOptions = ColumnWithFieldOptions

type_synonym Column = ColumnWithFieldOptions

text \<open>
  A stored column definition, as the pipeline reads it: each of the four members may be
  missing. \<open>storedColumns\<close> is indexed by column name.
\<close>

record StoredColumn =
  storedFieldType :: "FieldType option"
  storedBaseOptions :: "Options option"
  storedFieldOptions :: "Options option"
  storedLabel :: "string option"

text \<open>
  What the module imports from files that are not among the sources, taken as
  parameters: the list \<open>idColumns\<close> and the function \<open>getBaseOptions\<close> of
  features/fields, \<open>humanize\<close> of lib/humanize, and the dynamic
  \<open>import(`@/plugins/fields/${fieldType}/fieldOptions`)\<close>, which is \<open>None\<close> where the
  import throws and the module's default export otherwise.
\<close>

record Deps =
  idColumns :: "string list"
  getBaseOptions :: Options
  humanize :: "string \<Rightarrow> string"
  importFieldOptions :: "FieldType \<Rightarrow> Options option"

definition getPrimaryKeyColumn :: "QueryService \<Rightarrow> string \<Rightarrow> string option" where
  "getPrimaryKeyColumn svc tName =
     (let columnInfo = inspector_columnInfo svc tName in
      map_option InspectorColumn.name (find (\<lambda>c. is_primary_key c = True) columnInfo))"

definition getForeignKeys :: "QueryService \<Rightarrow> string \<Rightarrow> ForeignKeyInfo list" where
  "getForeignKeys svc tName =
     map (\<lambda>fkInfo.
            \<lparr>constraintName = constraint_name fkInfo,
             tableName = table fkInfo,
             columnName = column fkInfo,
             foreignTableName = foreign_key_table fkInfo,
             foreignColumnName = foreign_key_column fkInfo,
             foreignTableSchema = foreign_key_schema fkInfo,
             onUpdate = on_update fkInfo,
             onDelete = on_delete fkInfo\<rparr>)
         (filter (\<lambda>fkInfo. table fkInfo = tName) (inspector_foreignKeys svc))"

definition getColumnLabel :: "Deps \<Rightarrow> 'a ColumnWithSourceInfo_scheme \<Rightarrow> string" where
  "getColumnLabel deps col =
     (if name col = ''id'' then ''ID'' else humanize deps (name col))"

text \<open>
  The \<open>switch\<close> on the native type. Its \<open>default\<close> label stands with the first group,
  and JavaScript tries every \<open>case\<close> label before it falls back to \<open>default\<close>.
\<close>

definition getFieldTypeFromColumnInfo :: "Deps \<Rightarrow> ColumnWithBaseOptions \<Rightarrow> FieldType" where
  "getFieldTypeFromColumnInfo deps col =
     (if foreignKeyInfo col \<noteq> None then Association
      else
        let t = type (dataSourceInfo col) in
        if t \<in> set [''character'', ''character varying'', ''interval'', ''name''] then Text
        else if t \<in> set [''boolean'', ''bit''] then Boolean
        else if t \<in> set [''timestamp without time zone'', ''timestamp with time zone'',
                          ''time without time zone'', ''time with time zone'', ''date'']
          then DateTime
        else if t \<in> set [''json'', ''jsonb''] then Json
        else if t \<in> set [''text'', ''xml'', ''bytea''] then Textarea
        else if t \<in> set [''integer'', ''bigint'', ''numeric'', ''smallint'', ''oid'', ''uuid'',
                          ''real'', ''double precision'', ''money'']
          then (if name col \<in> set (idColumns deps) then Id' else Number)
        else Text)"

text \<open>
  One import per column; a column whose import throws contributes no tuple. A module
  whose default export is missing gives a tuple with \<open>undefined\<close>, which the falsy test
  in \<open>getColumns\<close> treats like no tuple, so both are \<open>None\<close> of \<open>importFieldOptions\<close>.
\<close>

definition getDefaultFieldOptionsForFields ::
  "Deps \<Rightarrow> ColumnWithFieldType list \<Rightarrow> (string \<rightharpoonup> Options)"
where
  "getDefaultFieldOptionsForFields deps cols =
     fromEntries
       (List.map_filter
          (\<lambda>col. map_option (\<lambda>d. (name col, d)) (importFieldOptions deps (fieldType col)))
          cols)"

text \<open>
  \<open>!isUndefined(storedColumns) ? storedColumns[column.name] : undefined\<close>. Column names
  are taken not to be names of \<open>Object.prototype\<close> members, so an index that is not a
  key of the object gives \<open>undefined\<close>.
\<close>

definition storedColumnFor ::
  "(string \<rightharpoonup> StoredColumn) option \<Rightarrow> string \<Rightarrow> StoredColumn option"
where
  "storedColumnFor storedColumns n =
     (case storedColumns of None \<Rightarrow> None | Some cols \<Rightarrow> cols n)"

subsection \<open>The stages of \<open>getColumns\<close>\<close>

definition columnsWithDataSourceInfo :: "QueryService \<Rightarrow> string \<Rightarrow> ColumnWithSourceInfo list" where
  "columnsWithDataSourceInfo svc tName =
     (let rawColumns = client_columnInfo svc tName;
          primaryKeyColumn = getPrimaryKeyColumn svc tName
      in map (\<lambda>(n, info).
                \<lparr>name = n, label = n, dataSourceInfo = info,
                 primaryKey = (primaryKeyColumn = Some n)\<rparr>)
             rawColumns)"

definition columnsWithForeignKeyInfo ::
  "QueryService \<Rightarrow> string \<Rightarrow> ColumnWithForeignKeyInfo list"
where
  "columnsWithForeignKeyInfo svc tName =
     (let foreignKeys = getForeignKeys svc tName;
          foreignKeysByColumnName =
            fromEntries (map (\<lambda>fk. (ForeignKeyInfo.columnName fk, fk)) foreignKeys)
      in map (\<lambda>col. ColumnWithSourceInfo.extend col
                       (ColumnWithForeignKeyInfo.fields (foreignKeysByColumnName (name col))))
             (columnsWithDataSourceInfo svc tName))"

definition columnsWithBaseOptions ::
  "QueryService \<Rightarrow> Deps \<Rightarrow> string \<Rightarrow> ColumnWithBaseOptions list"
where
  "columnsWithBaseOptions svc deps tName =
     (let baseOptions = getBaseOptions deps
      in map (\<lambda>col. ColumnWithForeignKeyInfo.extend col
                       (ColumnWithBaseOptions.fields baseOptions))
             (columnsWithForeignKeyInfo svc tName))"

definition columnsWithFieldType ::
  "QueryService \<Rightarrow> Deps \<Rightarrow> string \<Rightarrow> (string \<rightharpoonup> StoredColumn) option
     \<Rightarrow> ColumnWithFieldType list"
where
  "columnsWithFieldType svc deps tName storedColumns =
     map (\<lambda>col.
            let storedColumn = storedColumnFor storedColumns (name col);
                fieldType =
                  (case Option.bind storedColumn storedFieldType of
                     Some ft \<Rightarrow> ft
                   | None \<Rightarrow> getFieldTypeFromColumnInfo deps col)
            in ColumnWithBaseOptions.extend col (ColumnWithFieldType.fields fieldType))
         (columnsWithBaseOptions svc deps tName)"

definition columnsWithFieldOptions ::
  "QueryService \<Rightarrow> Deps \<Rightarrow> string \<Rightarrow> (string \<rightharpoonup> StoredColumn) option
     \<Rightarrow> ColumnWithFieldOptions list"
where
  "columnsWithFieldOptions svc deps tName storedColumns =
     (let cols = columnsWithFieldType svc deps tName storedColumns;
          fieldOptionsByFieldName = getDefaultFieldOptionsForFields deps cols
      in map (\<lambda>col.
                let fieldOptions =
                      (case fieldOptionsByFieldName (name col) of
                         Some d \<Rightarrow> d
                       | None \<Rightarrow> Map.empty)
                in ColumnWithFieldType.extend col (ColumnWithFieldOptions.fields fieldOptions))
             cols)"

text \<open>The object spread \<open>{...a, ...b}\<close> is \<open>a ++ b\<close>: the entries of \<open>b\<close> over those of \<open>a\<close>.\<close>

definition columnsWithStoredOptions ::
  "QueryService \<Rightarrow> Deps \<Rightarrow> string \<Rightarrow> (string \<rightharpoonup> StoredColumn) option
     \<Rightarrow> ColumnWithStoredOptions list"
where
  "columnsWithStoredOptions svc deps tName storedColumns =
     map (\<lambda>col.
            let storedColumn = storedColumnFor storedColumns (name col);
                baseOptions' =
                  (case Option.bind storedColumn storedBaseOptions of
                     Some b \<Rightarrow> b
                   | None \<Rightarrow> Map.empty);
                fieldOptions' =
                  (case Option.bind storedColumn storedFieldOptions of
                     Some b \<Rightarrow> b
                   | None \<Rightarrow> Map.empty)
            in col\<lparr>baseOptions := baseOptions col ++ baseOptions',
                   fieldOptions := fieldOptions col ++ fieldOptions'\<rparr>)
         (columnsWithFieldOptions svc deps tName storedColumns)"

definition getColumns ::
  "QueryService \<Rightarrow> Deps \<Rightarrow> string \<Rightarrow> (string \<rightharpoonup> StoredColumn) option \<Rightarrow> Column list"
where
  "getColumns svc deps tName storedColumns =
     map (\<lambda>col. col\<lparr>label := getColumnLabel deps col\<rparr>)
         (columnsWithStoredOptions svc deps tName storedColumns)"

section \<open>Record operations keyed by the primary key\<close>

text \<open>
  An operation's outcome is its result, or the error it throws, together with the
  queries it has handed to the client, in order.
\<close>

type_synonym 'a outcome = "(error + 'a) \<times> Query list"

text \<open>\<open>rows[0]\<close> and the destructuring \<open>[id] = rows\<close>: the first element, if any.\<close>

fun first :: "jsvalue \<Rightarrow> jsvalue" where
  "first (JArr (x # xs)) = x"
| "first v = JUndefined"

definition noPrimaryKey :: "string \<Rightarrow> error" where
  "noPrimaryKey tName = Error (''Can't find a primary key for table '' @ tName @ ''.'')"

text \<open>\<open>!pk\<close> holds of \<open>undefined\<close> and of the empty string.\<close>

definition getRecord ::
  "QueryService \<Rightarrow> string \<Rightarrow> string \<Rightarrow> string list \<Rightarrow> jsvalue outcome"
where
  "getRecord svc tName recordId select =
     (case getPrimaryKeyColumn svc tName of
        None \<Rightarrow> (Inl (noPrimaryKey tName), [])
      | Some pk \<Rightarrow>
          if pk = [] then (Inl (noPrimaryKey tName), [])
          else
            let q = knex_table tName (knex_where (WhereEq pk recordId)
                      (knex_select select knex_client));
                rows = client_execute svc q
            in (Inr (first rows), [q]))"

definition createRecord :: "QueryService \<Rightarrow> string \<Rightarrow> jsvalue \<Rightarrow> jsvalue outcome" where
  "createRecord svc tName data =
     (case getPrimaryKeyColumn svc tName of
        None \<Rightarrow> (Inl (noPrimaryKey tName), [])
      | Some pk \<Rightarrow>
          if pk = [] then (Inl (noPrimaryKey tName), [])
          else
            let q = knex_returning pk (knex_insert data (knex_table tName knex_client))
            in (Inr (first (client_execute svc q)), [q]))"

definition updateRecord ::
  "QueryService \<Rightarrow> string \<Rightarrow> string \<Rightarrow> jsvalue \<Rightarrow> jsvalue outcome"
where
  "updateRecord svc tName recordId data =
     (case getPrimaryKeyColumn svc tName of
        None \<Rightarrow> (Inl (noPrimaryKey tName), [])
      | Some pk \<Rightarrow>
          if pk = [] then (Inl (noPrimaryKey tName), [])
          else
            let q = knex_where (WhereEq pk recordId)
                      (knex_update data (knex_table tName knex_client))
            in (Inr (client_execute svc q), [q]))"

definition deleteRecord :: "QueryService \<Rightarrow> string \<Rightarrow> string \<Rightarrow> jsvalue outcome" where
  "deleteRecord svc tName recordId =
     (case getPrimaryKeyColumn svc tName of
        None \<Rightarrow> (Inl (noPrimaryKey tName), [])
      | Some pk \<Rightarrow>
          if pk = [] then (Inl (noPrimaryKey tName), [])
          else
            let q = knex_where (WhereEq pk recordId)
                      (knex_delete (knex_table tName knex_client))
            in (Inr (client_execute svc q), [q]))"

definition deleteRecords :: "QueryService \<Rightarrow> string \<Rightarrow> int list \<Rightarrow> jsvalue outcome" where
  "deleteRecords svc tName recordIds =
     (case getPrimaryKeyColumn svc tName of
        None \<Rightarrow> (Inl (noPrimaryKey tName), [])
      | Some pk \<Rightarrow>
          if pk = [] then (Inl (noPrimaryKey tName), [])
          else
            let q = knex_where (WhereIn pk recordIds)
                      (knex_delete (knex_table tName knex_client))
            in (Inr (client_execute svc q), [q]))"

section \<open>Filters: \<open>getCondition\<close>, \<open>getValue\<close>\<close>

record Filter =
  columnName :: string
  condition :: string
  value' :: string

text \<open>
  Modelled from the spec: the enum \<open>StringFilterConditions\<close>
  (features/tables/components/StringConditionComponent) is not among the source files.
  Its members carry their own names as values, as the condition column of the
  translator's table lists them.
\<close>

definition StringFilterConditions_is_not :: string where
  "StringFilterConditions_is_not = ''is_not''"

definition StringFilterConditions_not_contains :: string where
  "StringFilterConditions_not_contains = ''not_contains''"

definition StringFilterConditions_starts_with :: string where
  "StringFilterConditions_starts_with = ''starts_with''"

definition StringFilterConditions_ends_with :: string where
  "StringFilterConditions_ends_with = ''ends_with''"

definition StringFilterConditions_is_empty :: string where
  "StringFilterConditions_is_empty = ''is_empty''"

definition StringFilterConditions_is_not_empty :: string where
  "StringFilterConditions_is_not_empty = ''is_not_empty''"

text \<open>The \<open>switch\<close> of \<open>getCondition\<close>, case by case in the source's order; \<open>=\<close> after it.\<close>

definition getCondition :: "Filter \<Rightarrow> string" where
  "getCondition f =
     (let c = condition f in
      if c = ''is'' then ''=''
      else if c = StringFilterConditions_is_not then ''!=''
      else if c = ''contains'' then ''LIKE''
      else if c = StringFilterConditions_not_contains then ''NOT LIKE''
      else if c = StringFilterConditions_starts_with then ''LIKE''
      else if c = StringFilterConditions_ends_with then ''LIKE''
      else if c = StringFilterConditions_is_empty then ''LIKE''
      else if c = StringFilterConditions_is_not_empty then ''LIKE''
      else if c = ''>'' then ''>''
      else if c = ''>='' then ''>=''
      else if c = ''<'' then ''<''
      else if c = ''<='' then ''<=''
      else ''='')"

text \<open>
  The \<open>switch\<close> of \<open>getValue\<close>. Its \<open>default\<close> label stands with the first group, and
  JavaScript tries every \<open>case\<close> label before it falls back to \<open>default\<close>: the labelled
  groups are tested in order and the first group's value is the fallback. The statement
  after the \<open>switch\<close> is never reached, every group returns.
\<close>

definition getValue :: "Filter \<Rightarrow> string" where
  "getValue f =
     (let c = condition f in
      if c = ''is'' \<or> c = StringFilterConditions_is_not then value' f
      else if c = ''contains'' \<or> c = StringFilterConditions_not_contains
        then ''%'' @ value' f @ ''%''
      else if c = StringFilterConditions_starts_with then ''%'' @ value' f
      else if c = StringFilterConditions_ends_with then value' f @ ''%''
      else if c = StringFilterConditions_is_not_empty \<or> c = StringFilterConditions_is_empty
        then ''''
      else value' f)"

definition addFilterToQuery :: "Query \<Rightarrow> Filter \<Rightarrow> Query" where
  "addFilterToQuery query f =
     knex_where (Where (columnName f) (getCondition f) (getValue f)) query"

text \<open>
  The builder \<open>getRecords\<close> returns, or the error thrown while it is built. Under
  \<open>isNumber(limit) && isNumber(offset)\<close> both values are numbers, and
  \<open>query.limit(limit).offset(offset).select(select)\<close> runs from left to right: when
  \<open>offset\<close> throws, \<open>select\<close> and all that follows are not reached. \<open>filters\<close> is an
  array, which is truthy also when empty, so the \<open>forEach\<close> always runs; \<open>orderBy\<close> is a
  string, truthy unless empty.
\<close>

definition getRecordsQuery ::
  "string \<Rightarrow> jsvalue \<Rightarrow> jsvalue \<Rightarrow> Filter list \<Rightarrow> string \<Rightarrow> string \<Rightarrow> string list
     \<Rightarrow> error + Query"
where
  "getRecordsQuery tName limit offset filters orderBy orderDirection select =
     (let query = knex_table tName knex_client in
      case (if isNumber limit \<and> isNumber offset
            then (case (limit, offset) of
                    (JNum l, JNum off) \<Rightarrow>
                      map_sum id (knex_select select) (knex_offset off (knex_limit l query))
                  | _ \<Rightarrow> Inr query)
            else Inr query) of
        Inl e \<Rightarrow> Inl e
      | Inr query \<Rightarrow>
          (let query = foldl addFilterToQuery query filters;
               query = (if orderBy \<noteq> ''''
                        then knex_orderBy (tName @ ''.'' @ orderBy) orderDirection query
                        else query)
           in Inr query))"


text \<open>
  \<open>getRecords\<close> returns the builder, and awaiting it runs the query; an error thrown
  while the builder is built rejects the call.
\<close>

definition getRecords ::
  "QueryService \<Rightarrow> string \<Rightarrow> jsvalue \<Rightarrow> jsvalue \<Rightarrow> Filter list \<Rightarrow> string \<Rightarrow> string
     \<Rightarrow> string list \<Rightarrow> error + jsvalue"
where
  "getRecords svc tName limit offset filters orderBy orderDirection select =
     map_sum id (client_execute svc)
       (getRecordsQuery tName limit offset filters orderBy orderDirection select)"

section \<open>The validation schema of a data source\<close>

text \<open>
  The part of Joi the schema uses, after Joi's documentation. A schema is optional
  until \<open>required()\<close>: \<open>undefined\<close> passes an optional schema and fails a required one.
  \<open>Joi.string()\<close> takes a string that is not empty; \<open>min(n)\<close> asks for at least \<open>n\<close>
  characters; \<open>valid(...)\<close> takes the listed values and nothing else.
  \<open>Joi.object({...})\<close> takes an object (not \<open>null\<close>, not an array) with no key outside
  the listed ones, each listed key's value, \<open>undefined\<close> when the key is missing,
  passing the key's schema. A string is the list of its characters, which for ASCII
  text is the length JavaScript counts.
\<close>

datatype JoiSchema =
    JoiString "nat option" "string list option" bool
  | JoiObject "(string \<times> JoiSchema) list" bool

definition Joi_string :: JoiSchema where
  "Joi_string = JoiString None None False"

definition Joi_object :: "(string \<times> JoiSchema) list \<Rightarrow> JoiSchema" where
  "Joi_object keys = JoiObject keys False"

fun Joi_min :: "nat \<Rightarrow> JoiSchema \<Rightarrow> JoiSchema" where
  "Joi_min n (JoiString mn vl req) = JoiString (Some n) vl req"
| "Joi_min n s = s"

fun Joi_valid :: "string list \<Rightarrow> JoiSchema \<Rightarrow> JoiSchema" where
  "Joi_valid vs (JoiString mn vl req) = JoiString mn (Some vs) req"
| "Joi_valid vs s = s"

fun Joi_required :: "JoiSchema \<Rightarrow> JoiSchema" where
  "Joi_required (JoiString mn vl req) = JoiString mn vl True"
| "Joi_required (JoiObject keys req) = JoiObject keys True"

text \<open>The property read \<open>obj[k]\<close> on an object given by its entries.\<close>

definition property :: "(string \<times> jsvalue) list \<Rightarrow> string \<Rightarrow> jsvalue" where
  "property kvs k = (case map_of kvs k of None \<Rightarrow> JUndefined | Some v \<Rightarrow> v)"

fun Joi_accepts :: "JoiSchema \<Rightarrow> jsvalue \<Rightarrow> bool" where
  "Joi_accepts (JoiString mn vl req) v =
     (case v of
        JUndefined \<Rightarrow> \<not> req
      | JStr s \<Rightarrow>
          (case vl of
             Some allowed \<Rightarrow> s \<in> set allowed
           | None \<Rightarrow> s \<noteq> [] \<and> (case mn of None \<Rightarrow> True | Some n \<Rightarrow> n \<le> length s))
      | _ \<Rightarrow> False)"
| "Joi_accepts (JoiObject keys req) v =
     (case v of
        JUndefined \<Rightarrow> \<not> req
      | JObj kvs \<Rightarrow>
          list_all (\<lambda>k. k \<in> set (map fst keys)) (map fst kvs)
          \<and> list_all (\<lambda>(k, s). Joi_accepts s (property kvs k)) keys
      | _ \<Rightarrow> False)"

definition schema :: JoiSchema where
  "schema =
     Joi_object
       [(''name'', Joi_required (Joi_min 3 Joi_string)),
        (''options'', Joi_object [(''url'', Joi_required Joi_string)]),
        (''type'', Joi_required (Joi_valid [''postgresql''] Joi_string))]"

section \<open>An example database\<close>

text \<open>
  A service on three tables: \<open>users\<close>, with the primary key \<open>id\<close> and the foreign key
  \<open>manager_id\<close> to \<open>users.id\<close>; \<open>memberships\<close>, whose primary key is the pair
  \<open>user_id\<close>, \<open>team_id\<close>; and \<open>logs\<close>, which has no primary key.
\<close>

definition example_svc :: QueryService where
  "example_svc =
     \<lparr>client_columnInfo = (\<lambda>t.
        if t = ''users'' then
          [(''id'', \<lparr>type = ''integer'', maxLength = None, nullable = False,
                     defaultValue = JNull\<rparr>),
           (''email'', \<lparr>type = ''character varying'', maxLength = Some 255, nullable = False,
                        defaultValue = JNull\<rparr>),
           (''manager_id'', \<lparr>type = ''integer'', maxLength = None, nullable = True,
                             defaultValue = JNull\<rparr>)]
        else if t = ''memberships'' then
          [(''user_id'', \<lparr>type = ''integer'', maxLength = None, nullable = False,
                          defaultValue = JNull\<rparr>),
           (''team_id'', \<lparr>type = ''integer'', maxLength = None, nullable = False,
                          defaultValue = JNull\<rparr>),
           (''role'', \<lparr>type = ''character varying'', maxLength = Some 32, nullable = False,
                       defaultValue = JStr ''member''\<rparr>)]
        else if t = ''logs'' then
          [(''message'', \<lparr>type = ''text'', maxLength = None, nullable = True,
                          defaultValue = JNull\<rparr>)]
        else []),
      inspector_columnInfo = (\<lambda>t.
        if t = ''users'' then
          [\<lparr>InspectorColumn.name = ''id'', data_type = ''integer'', is_primary_key = True\<rparr>,
           \<lparr>InspectorColumn.name = ''email'', data_type = ''character varying'',
            is_primary_key = False\<rparr>,
           \<lparr>InspectorColumn.name = ''manager_id'', data_type = ''integer'',
            is_primary_key = False\<rparr>]
        else if t = ''memberships'' then
          [\<lparr>InspectorColumn.name = ''user_id'', data_type = ''integer'',
            is_primary_key = True\<rparr>,
           \<lparr>InspectorColumn.name = ''team_id'', data_type = ''integer'',
            is_primary_key = True\<rparr>,
           \<lparr>InspectorColumn.name = ''role'', data_type = ''character varying'',
            is_primary_key = False\<rparr>]
        else if t = ''logs'' then
          [\<lparr>InspectorColumn.name = ''message'', data_type = ''text'',
            is_primary_key = False\<rparr>]
        else []),
      inspector_foreignKeys =
        [\<lparr>table = ''users'', column = ''manager_id'', foreign_key_schema = Some ''public'',
          foreign_key_table = ''users'', foreign_key_column = ''id'',
          constraint_name = Some ''users_manager_id_fkey'', on_update = None,
          on_delete = None\<rparr>],
      client_execute = (\<lambda>q. JArr [])\<rparr>"

text \<open>
  An instance of the imported helpers: two base options, field options for the
  \<open>Text\<close> and \<open>Textarea\<close> plugins only, and a \<open>humanize\<close> that is given on the names of
  the example.
\<close>

definition example_deps :: Deps where
  "example_deps =
     \<lparr>idColumns = [''id'', ''_id'', ''uuid''],
      getBaseOptions =
        [''required'' \<mapsto> JBool False,
         ''visibility'' \<mapsto> JArr [JStr ''index'', JStr ''show'', JStr ''edit'', JStr ''new'']],
      humanize = (\<lambda>s. if s = ''email'' then ''Email''
                       else if s = ''manager_id'' then ''Manager id'' else s),
      importFieldOptions = (\<lambda>ft.
        if ft = Text then Some [''displayAsLink'' \<mapsto> JBool False]
        else if ft = Textarea then Some [''rows'' \<mapsto> JInt 5, ''richText'' \<mapsto> JBool False]
        else None)\<rparr>"

text \<open>
  A stored configuration: \<open>manager_id\<close> is declared \<open>Text\<close>; \<open>email\<close> is declared
  \<open>Textarea\<close>, with one base option, one field option and a label of its own.
\<close>

definition example_storedColumns :: "string \<rightharpoonup> StoredColumn" where
  "example_storedColumns =
     [''manager_id'' \<mapsto>
        \<lparr>storedFieldType = Some Text, storedBaseOptions = None, storedFieldOptions = None,
         storedLabel = None\<rparr>,
      ''email'' \<mapsto>
        \<lparr>storedFieldType = Some Textarea,
         storedBaseOptions = Some [''visibility'' \<mapsto> JArr [JStr ''index'']],
         storedFieldOptions = Some [''rows'' \<mapsto> JInt 10],
         storedLabel = Some ''E-mail address''\<rparr>]"

section \<open>Collected definitions\<close>

lemmas StringFilterConditions_defs =
  StringFilterConditions_is_not_def StringFilterConditions_not_contains_def
  StringFilterConditions_starts_with_def StringFilterConditions_ends_with_def
  StringFilterConditions_is_empty_def StringFilterConditions_is_not_empty_def

lemmas knex_defs =
  knex_client_def knex_table_def knex_limit_def knex_offset_def knex_select_def
  knex_where_def knex_orderBy_def knex_insert_def knex_update_def knex_delete_def
  knex_returning_def

lemmas column_record_defs =
  ColumnWithSourceInfo.defs ColumnWithForeignKeyInfo.defs ColumnWithBaseOptions.defs
  ColumnWithFieldType.defs ColumnWithFieldOptions.defs

lemmas stage_defs =
  getColumns_def columnsWithStoredOptions_def columnsWithFieldOptions_def
  columnsWithFieldType_def columnsWithBaseOptions_def columnsWithForeignKeyInfo_def
  columnsWithDataSourceInfo_def

lemmas eval_defs =
  stage_defs column_record_defs Let_def getPrimaryKeyColumn_def getForeignKeys_def
  fromEntries_def getDefaultFieldOptionsForFields_def getFieldTypeFromColumnInfo_def
  storedColumnFor_def getColumnLabel_def

lemmas example_defs = example_svc_def example_deps_def example_storedColumns_def

lemmas Joi_defs = schema_def Joi_object_def Joi_string_def

section \<open>Properties of the filter translator\<close>

text \<open>The operator column of the condition table, as \<open>getCondition\<close> computes it.\<close>

lemma getCondition_table:
  "getCondition (f\<lparr>condition := ''is''\<rparr>) = ''=''"
  "getCondition (f\<lparr>condition := ''is_not''\<rparr>) = ''!=''"
  "getCondition (f\<lparr>condition := ''contains''\<rparr>) = ''LIKE''"
  "getCondition (f\<lparr>condition := ''not_contains''\<rparr>) = ''NOT LIKE''"
  "getCondition (f\<lparr>condition := ''starts_with''\<rparr>) = ''LIKE''"
  "getCondition (f\<lparr>condition := ''ends_with''\<rparr>) = ''LIKE''"
  "getCondition (f\<lparr>condition := ''is_empty''\<rparr>) = ''LIKE''"
  "getCondition (f\<lparr>condition := ''is_not_empty''\<rparr>) = ''LIKE''"
  "getCondition (f\<lparr>condition := ''>''\<rparr>) = ''>''"
  "getCondition (f\<lparr>condition := ''>=''\<rparr>) = ''>=''"
  "getCondition (f\<lparr>condition := ''<''\<rparr>) = ''<''"
  "getCondition (f\<lparr>condition := ''<=''\<rparr>) = ''<=''"
  by (simp_all add: getCondition_def StringFilterConditions_defs)

text \<open>The rows of the value column that \<open>getValue\<close> computes as the table has them.\<close>

lemma getValue_table:
  "getValue (f\<lparr>condition := ''is''\<rparr>) = value' f"
  "getValue (f\<lparr>condition := ''is_not''\<rparr>) = value' f"
  "getValue (f\<lparr>condition := ''contains''\<rparr>) = ''%'' @ value' f @ ''%''"
  "getValue (f\<lparr>condition := ''not_contains''\<rparr>) = ''%'' @ value' f @ ''%''"
  "getValue (f\<lparr>condition := ''is_empty''\<rparr>) = []"
  "getValue (f\<lparr>condition := ''is_not_empty''\<rparr>) = []"
  "getValue (f\<lparr>condition := ''>''\<rparr>) = value' f"
  "getValue (f\<lparr>condition := ''>=''\<rparr>) = value' f"
  "getValue (f\<lparr>condition := ''<''\<rparr>) = value' f"
  "getValue (f\<lparr>condition := ''<=''\<rparr>) = value' f"
  by (simp_all add: getValue_def StringFilterConditions_defs)

text \<open>A condition outside the enumeration compiles to \<open>=\<close> with the value verbatim.\<close>

lemma unmatched_condition_defaults:
  assumes "condition f \<notin> set [''is'', ''is_not'', ''contains'', ''not_contains'',
             ''starts_with'', ''ends_with'', ''is_empty'', ''is_not_empty'',
             ''>'', ''>='', ''<'', ''<='']"
  shows "getCondition f = ''='' \<and> getValue f = value' f"
  using assms
  by (simp add: getCondition_def getValue_def StringFilterConditions_defs Let_def)

text \<open>
  C2. The condition table asks for \<open>starts_with\<close> to append \<open>%\<close> after the value and
  for \<open>ends_with\<close> to prepend it. On the filter \<open>name starts_with an\<close> the operator is
  \<open>LIKE\<close> as the table says, but \<open>getValue\<close> yields \<open>%an\<close>, the pattern of a value that
  ends with \<open>an\<close>; on \<open>name ends_with an\<close> it yields \<open>an%\<close>. The two templates are
  exchanged.
\<close>

theorem getValue_starts_with_prepends:
  "getCondition \<lparr>columnName = ''name'', condition = ''starts_with'', value' = ''an''\<rparr> = ''LIKE''
   \<and> getValue \<lparr>columnName = ''name'', condition = ''starts_with'', value' = ''an''\<rparr> = ''%an''
   \<and> getValue \<lparr>columnName = ''name'', condition = ''ends_with'', value' = ''an''\<rparr> = ''an%''"
  by (simp add: getCondition_def getValue_def StringFilterConditions_defs)

section \<open>Properties of \<open>getRecords\<close>\<close>

lemma foldl_addFilterToQuery_qLimit:
  "qLimit (foldl addFilterToQuery q fs) = qLimit q"
  by (induction fs arbitrary: q) (simp_all add: addFilterToQuery_def knex_where_def)

lemma foldl_addFilterToQuery_qOffset:
  "qOffset (foldl addFilterToQuery q fs) = qOffset q"
  by (induction fs arbitrary: q) (simp_all add: addFilterToQuery_def knex_where_def)

lemma foldl_addFilterToQuery_qSelect:
  "qSelect (foldl addFilterToQuery q fs) = qSelect q"
  by (induction fs arbitrary: q) (simp_all add: addFilterToQuery_def knex_where_def)

text \<open>Every filter becomes one \<open>where\<close> clause, in the order of the list.\<close>

lemma foldl_addFilterToQuery_qWhere:
  "qWhere (foldl addFilterToQuery q fs) =
     qWhere q @ map (\<lambda>f. Where (columnName f) (getCondition f) (getValue f)) fs"
  by (induction fs arbitrary: q) (simp_all add: addFilterToQuery_def knex_where_def)

text \<open>The filter \<open>name contains an\<close> compiles to \<open>name LIKE %an%\<close>.\<close>

lemma getRecords_contains_example:
  "map_sum id qWhere
     (getRecordsQuery ''users'' JUndefined JUndefined
        [\<lparr>columnName = ''name'', condition = ''contains'', value' = ''an''\<rparr>] [] [] []) =
     Inr [Where ''name'' ''LIKE'' ''%an%'']"
  by (simp add: getRecordsQuery_def Let_def knex_defs addFilterToQuery_def getCondition_def
      getValue_def StringFilterConditions_defs)

text \<open>\<open>isNumber\<close> holds of the numbers, whichever they are.\<close>

lemma isNumber_iff: "isNumber v \<longleftrightarrow> (\<exists>x. v = JNum x)"
  by (cases v) simp_all

text \<open>
  \<open>parseInt\<close> gives an integer below \<open>10\<^sup>2\<^sup>1\<close> in magnitude back, cuts a fraction off,
  and reads only the first digit of a number printed in exponent notation.
\<close>

lemma parseInt10_integer: "\<bar>n\<bar> < 10 ^ 21 \<Longrightarrow> parseInt10 (Decimal n 0) = Some n"
  by simp

lemma parseInt10_examples:
  "parseInt10 (Decimal 10 0) = Some 10"
  "parseInt10 (Decimal (- 1) 0) = Some (- 1)"
  "parseInt10 (Decimal 25 (- 1)) = Some 2"
  "parseInt10 (Decimal (- 5) (- 1)) = Some 0"
  "parseInt10 (Decimal 1 (- 6)) = Some 0"
  "parseInt10 (Decimal 1 (- 7)) = Some 1"
  "parseInt10 (Decimal 1 21) = Some 1"
  "parseInt10 (Decimal 15 20) = Some 1"
  "parseInt10 (Decimal (- 725) 28) = Some (- 7)"
  by (simp_all add: leadingDigit.simps Let_def)

text \<open>With two numbers the three calls are made, and the builder decides what is set.\<close>

lemma paginated_query:
  "map_sum id (\<lambda>q. (qLimit q, qOffset q, qSelect q))
      (getRecordsQuery tName (JNum l) (JNum off) filters orderBy orderDirection select) =
     (case parseInt10 off of
        None \<Rightarrow> Inr (parseInt10 l, None, Some select)
      | Some n \<Rightarrow>
          if n < 0 then Inl (Error ''A non-negative integer must be provided to offset.'')
          else Inr (parseInt10 l, Some n, Some select))"
  by (simp add: getRecordsQuery_def Let_def knex_defs foldl_addFilterToQuery_qLimit
      foldl_addFilterToQuery_qOffset foldl_addFilterToQuery_qSelect
      split: option.splits)

lemma unpaginated_query:
  "\<not> (isNumber limit \<and> isNumber offset) \<Longrightarrow>
   map_sum id (\<lambda>q. (qLimit q, qOffset q, qSelect q))
      (getRecordsQuery tName limit offset filters orderBy orderDirection select) =
     Inr (None, None, None)"
  by (cases limit; cases offset)
    (simp_all add: getRecordsQuery_def Let_def knex_client_def knex_table_def knex_orderBy_def
      foldl_addFilterToQuery_qLimit foldl_addFilterToQuery_qOffset
      foldl_addFilterToQuery_qSelect)

text \<open>
  An integer limit and a non-negative integer offset, both below \<open>10\<^sup>2\<^sup>1\<close> in
  magnitude, are set as given, with the projection.
\<close>

lemma getRecords_pagination_integers:
  assumes "\<bar>l\<bar> < 10 ^ 21" and "0 \<le> off" and "off < 10 ^ 21"
  shows "map_sum id (\<lambda>q. (qLimit q, qOffset q, qSelect q))
      (getRecordsQuery tName (JInt l) (JInt off) filters orderBy orderDirection select) =
     Inr (Some l, Some off, Some select)"
  using assms paginated_query [of tName "Decimal l 0" "Decimal off 0"]
  by simp

text \<open>
  The limit \<open>10\<close> with the offset \<open>-1\<close>: both are numbers, \<open>offset\<close> throws, and
  \<open>getRecords\<close> fails with no limit, offset or projection applied. The limit \<open>NaN\<close> with
  the offset \<open>0\<close>: both are numbers, the offset and the projection are set, the limit is
  not.
\<close>

theorem getRecords_pagination_counterexample:
  "isNumber (JInt 10) \<and> isNumber (JInt (- 1))
   \<and> getRecordsQuery ''users'' (JInt 10) (JInt (- 1)) [] [] ''asc'' [''id''] =
       Inl (Error ''A non-negative integer must be provided to offset.'')
   \<and> isNumber (JNum NaN) \<and> isNumber (JInt 0)
   \<and> getRecordsQuery ''users'' (JNum NaN) (JInt 0) [] [] ''asc'' [''id''] =
       Inr \<lparr>qTable = Some ''users'', qMethod = SelectRows, qSelect = Some [''id''],
            qLimit = None, qOffset = Some 0, qWhere = [], qOrderBy = [],
            qReturning = None\<rparr>"
  by (simp add: getRecordsQuery_def Let_def knex_defs)

text \<open>
  C4, as the code has it. When \<open>limit\<close> and \<open>offset\<close> are not both numbers, the query
  \<open>getRecords\<close> builds has no limit, no offset and no select projection; so it is for a
  numeric limit with no offset. When both are numbers, \<open>limit\<close>, \<open>offset\<close> and \<open>select\<close>
  are called in this order: if \<open>parseInt(offset, 10)\<close> is negative, \<open>offset\<close> throws and
  \<open>getRecords\<close> fails with that error; otherwise the projection is set, the limit is
  \<open>parseInt(limit, 10)\<close> unless that is \<open>NaN\<close>, and the offset is \<open>parseInt(offset, 10)\<close>
  unless that is \<open>NaN\<close>.
\<close>

theorem getRecords_pagination:
  "map_sum id (\<lambda>q. (qLimit q, qOffset q, qSelect q))
      (getRecordsQuery tName limit offset filters orderBy orderDirection select) =
     (if isNumber limit \<and> isNumber offset then
        (case (limit, offset) of
           (JNum l, JNum off) \<Rightarrow>
             (case parseInt10 off of
                None \<Rightarrow> Inr (parseInt10 l, None, Some select)
              | Some n \<Rightarrow>
                  if n < 0
                  then Inl (Error ''A non-negative integer must be provided to offset.'')
                  else Inr (parseInt10 l, Some n, Some select))
         | _ \<Rightarrow> Inr (None, None, None))
      else Inr (None, None, None))
   \<and> map_sum id (\<lambda>q. (qLimit q, qOffset q, qSelect q))
        (getRecordsQuery tName (JNum l) JUndefined filters orderBy orderDirection select) =
       Inr (None, None, None)"
proof -
  have "isNumber limit \<and> isNumber offset \<Longrightarrow> \<exists>l off. limit = JNum l \<and> offset = JNum off"
    by (simp add: isNumber_iff)
  then show ?thesis
    using paginated_query unpaginated_query [of limit offset]
      unpaginated_query [of "JNum l" JUndefined]
    by (cases "isNumber limit \<and> isNumber offset") auto
qed

section \<open>Properties of \<open>getColumns\<close>\<close>

lemma names_getColumns:
  "map name (getColumns svc deps t sc) = map fst (client_columnInfo svc t)"
  by (simp add: stage_defs column_record_defs Let_def split_def comp_def)

lemma length_columnsWithFieldOptions:
  "length (columnsWithFieldOptions svc deps t sc) = length (client_columnInfo svc t)"
  by (simp add: stage_defs Let_def)

text \<open>The end-to-end example: \<open>id\<close> is an \<open>Id\<close>, \<open>email\<close> a \<open>Text\<close>, \<open>manager_id\<close> an \<open>Association\<close>.\<close>

lemma users_fieldTypes:
  "map fieldType (getColumns example_svc example_deps ''users'' None) =
     [Id', Text, Association]"
  by (simp add: example_defs eval_defs)

text \<open>
  C7. The columns \<open>getColumns\<close> returns are the columns the engine reports for the
  table: the same names in the same order, hence as many, whatever stored column
  configuration is supplied.
\<close>

theorem getColumns_names:
  "map name (getColumns svc deps t sc) = map fst (client_columnInfo svc t)
   \<and> length (getColumns svc deps t sc) = length (client_columnInfo svc t)"
  by (simp add: stage_defs column_record_defs Let_def split_def comp_def)

text \<open>
  C3, as the code has it. The label of every returned column is \<open>ID\<close> for the column
  named \<open>id\<close> and the humanized column name otherwise. It is computed from the column
  name alone: neither a stored label nor a label of the engine's column description
  enters it.
\<close>

theorem getColumns_label:
  "map label (getColumns svc deps t sc) =
     map (\<lambda>(n, info). if n = ''id'' then ''ID'' else humanize deps n) (client_columnInfo svc t)"
  by (simp add: stage_defs column_record_defs Let_def split_def comp_def getColumnLabel_def)

text \<open>
  The stored configuration of the example gives \<open>email\<close> the label \<open>E-mail address\<close>;
  the returned column is labelled \<open>Email\<close>, the humanized name.
\<close>

theorem stored_label_counterexample:
  "(let col = getColumns example_svc example_deps ''users'' (Some example_storedColumns) ! 1
    in name col = ''email''
       \<and> Option.bind (example_storedColumns ''email'') storedLabel = Some ''E-mail address''
       \<and> label col = ''Email''
       \<and> label col \<noteq> ''E-mail address'')"
  by (simp add: example_defs eval_defs)

text \<open>Within inference a foreign key comes first: the native type is not looked at.\<close>

lemma getFieldTypeFromColumnInfo_foreignKey:
  "foreignKeyInfo col \<noteq> None \<Longrightarrow> getFieldTypeFromColumnInfo deps col = Association"
  by (simp add: getFieldTypeFromColumnInfo_def)

text \<open>
  C1, as the code has it. A returned column that has a foreign key takes the field
  type its stored configuration declares, when it declares one; only when the stored
  configuration declares none is the field type \<open>Association\<close>.
\<close>

theorem fk_association_unless_stored:
  assumes "col \<in> set (getColumns svc deps t sc)" and "foreignKeyInfo col \<noteq> None"
  shows "fieldType col =
           (case Option.bind (storedColumnFor sc (name col)) storedFieldType of
              Some ft \<Rightarrow> ft
            | None \<Rightarrow> Association)"
  using assms
  by (auto simp add: stage_defs column_record_defs Let_def split_def
      getFieldTypeFromColumnInfo_foreignKey split: option.splits)

text \<open>
  In the example \<open>manager_id\<close> has a foreign key; with no stored configuration it is
  an \<open>Association\<close>.
\<close>

theorem fk_association_unless_stored_witness:
  "(let col = getColumns example_svc example_deps ''users'' None ! 2
    in col \<in> set (getColumns example_svc example_deps ''users'' None)
       \<and> name col = ''manager_id''
       \<and> foreignKeyInfo col \<noteq> None
       \<and> fieldType col = Association)"
  using fk_association_unless_stored
    [of "getColumns example_svc example_deps ''users'' None ! 2" example_svc example_deps
        "''users''" None]
  by (simp add: example_defs eval_defs)

text \<open>
  In the example \<open>manager_id\<close> has a foreign key and the stored configuration declares
  it \<open>Text\<close>: the returned field type is \<open>Text\<close>, not \<open>Association\<close>.
\<close>

theorem fk_stored_counterexample:
  "(let col = getColumns example_svc example_deps ''users'' (Some example_storedColumns) ! 2
    in name col = ''manager_id''
       \<and> foreignKeyInfo col \<noteq> None
       \<and> Option.bind (example_storedColumns ''manager_id'') storedFieldType = Some Text
       \<and> fieldType col = Text
       \<and> fieldType col \<noteq> Association)"
  by (simp add: example_defs eval_defs)

text \<open>
  C5. A returned column whose stored configuration declares a field type, and which
  has no foreign key, has exactly the declared field type, whatever the native type
  and the name of the column would infer.
\<close>

theorem stored_fieldType_verbatim:
  assumes "col \<in> set (getColumns svc deps t sc)"
    and "storedColumnFor sc (name col) = Some st"
    and "storedFieldType st = Some ft"
    and "foreignKeyInfo col = None"
  shows "fieldType col = ft"
  using assms
  by (auto simp add: stage_defs column_record_defs Let_def split_def)

text \<open>
  In the example \<open>email\<close> is a \<open>character varying\<close> column, which inference makes a
  \<open>Text\<close>; declared \<open>Textarea\<close> in the stored configuration, it is a \<open>Textarea\<close>.
\<close>

theorem stored_fieldType_verbatim_witness:
  "(let col = getColumns example_svc example_deps ''users'' (Some example_storedColumns) ! 1
    in col \<in> set (getColumns example_svc example_deps ''users'' (Some example_storedColumns))
       \<and> name col = ''email''
       \<and> storedColumnFor (Some example_storedColumns) (name col)
           = Some \<lparr>storedFieldType = Some Textarea,
                   storedBaseOptions = Some [''visibility'' \<mapsto> JArr [JStr ''index'']],
                   storedFieldOptions = Some [''rows'' \<mapsto> JInt 10],
                   storedLabel = Some ''E-mail address''\<rparr>
       \<and> foreignKeyInfo col = None
       \<and> fieldType col = Textarea)"
  using stored_fieldType_verbatim
    [of "getColumns example_svc example_deps ''users'' (Some example_storedColumns) ! 1"
        example_svc example_deps "''users''" "Some example_storedColumns"
        "\<lparr>storedFieldType = Some Textarea,
          storedBaseOptions = Some [''visibility'' \<mapsto> JArr [JStr ''index'']],
          storedFieldOptions = Some [''rows'' \<mapsto> JInt 10],
          storedLabel = Some ''E-mail address''\<rparr>"
        Textarea]
  by (simp add: example_defs eval_defs)

subsection \<open>The merge of the stored options\<close>

lemma nth_getColumns:
  assumes "i < length (client_columnInfo svc t)"
  shows "getColumns svc deps t sc ! i =
    (let d = columnsWithFieldOptions svc deps t sc ! i;
         st = storedColumnFor sc (name d)
     in d\<lparr>baseOptions := baseOptions d ++
              (case Option.bind st storedBaseOptions of Some b \<Rightarrow> b | None \<Rightarrow> Map.empty),
            fieldOptions := fieldOptions d ++
              (case Option.bind st storedFieldOptions of Some b \<Rightarrow> b | None \<Rightarrow> Map.empty),
            label := getColumnLabel deps d\<rparr>)"
  using assms length_columnsWithFieldOptions [of svc deps t sc]
  by (simp add: getColumns_def columnsWithStoredOptions_def Let_def getColumnLabel_def)

lemma nth_columnsWithFieldOptions_baseOptions:
  assumes "i < length (client_columnInfo svc t)"
  shows "baseOptions (columnsWithFieldOptions svc deps t sc ! i) = getBaseOptions deps"
  using assms
  by (simp add: columnsWithFieldOptions_def columnsWithFieldType_def columnsWithBaseOptions_def
      columnsWithForeignKeyInfo_def columnsWithDataSourceInfo_def Let_def column_record_defs
      split_def)

text \<open>
  C6. Let \<open>d\<close> be a column as it stands before the stored options are merged, with the
  default base options and the default field options of its field type, and \<open>c\<close> the
  column returned for it. When the stored configuration has base options for the
  column, \<open>c\<close> has at every key the stored value where the stored options have the key,
  whole, and the default value of \<open>d\<close> where they have not; when it has none, the base
  options of \<open>c\<close> are those of \<open>d\<close>. The same holds of the field options.
\<close>

theorem stored_options_merge_shallow:
  assumes "i < length (client_columnInfo svc t)"
  shows
    "(let d = columnsWithFieldOptions svc deps t sc ! i;
          c = getColumns svc deps t sc ! i;
          st = storedColumnFor sc (name d)
      in name c = name d
         \<and> baseOptions d = getBaseOptions deps
         \<and> (case Option.bind st storedBaseOptions of
               None \<Rightarrow> baseOptions c = baseOptions d
             | Some sb \<Rightarrow>
                 \<forall>k. baseOptions c k =
                       (case sb k of Some v \<Rightarrow> Some v | None \<Rightarrow> baseOptions d k))
         \<and> (case Option.bind st storedFieldOptions of
               None \<Rightarrow> fieldOptions c = fieldOptions d
             | Some sf \<Rightarrow>
                 \<forall>k. fieldOptions c k =
                       (case sf k of Some v \<Rightarrow> Some v | None \<Rightarrow> fieldOptions d k)))"
  using nth_getColumns [OF assms, of deps sc]
    nth_columnsWithFieldOptions_baseOptions [OF assms, of deps sc]
  by (simp add: Let_def map_add_def split: option.splits)

text \<open>
  In the example the stored \<open>visibility\<close> of \<open>email\<close>, a one-element array, replaces the
  default four-element array whole, the default \<open>required\<close> stays; the stored \<open>rows\<close>
  replaces the default of the \<open>Textarea\<close> plugin, the default \<open>richText\<close> stays. The
  column \<open>id\<close> has no stored configuration and keeps the default base options.
\<close>

theorem stored_options_merge_shallow_witness:
  "1 < length (client_columnInfo example_svc ''users'')
   \<and> (let c = getColumns example_svc example_deps ''users'' (Some example_storedColumns) ! 1
      in name c = ''email''
         \<and> baseOptions c ''visibility'' = Some (JArr [JStr ''index''])
         \<and> baseOptions c ''required'' = Some (JBool False)
         \<and> fieldOptions c ''rows'' = Some (JInt 10)
         \<and> fieldOptions c ''richText'' = Some (JBool False))
   \<and> baseOptions (getColumns example_svc example_deps ''users'' (Some example_storedColumns) ! 0)
       = getBaseOptions example_deps"
  using
    stored_options_merge_shallow
      [of 1 example_svc "''users''" example_deps "Some example_storedColumns"]
    stored_options_merge_shallow
      [of 0 example_svc "''users''" example_deps "Some example_storedColumns"]
  by (simp add: example_defs eval_defs)

section \<open>Properties of the primary key\<close>

lemma find_filter_Cons: "filter P xs = p # ps \<Longrightarrow> find P xs = Some p"
  by (induction xs) (auto split: if_splits)

lemma filter_eq_distinct:
  "distinct xs \<Longrightarrow> x \<in> set xs \<Longrightarrow> filter (\<lambda>y. y = x) xs = [x]"
  by (induction xs) (auto simp: filter_empty_conv)

lemma primaryKey_getColumns:
  "col \<in> set (getColumns svc deps t sc) \<Longrightarrow>
     primaryKey col = (getPrimaryKeyColumn svc t = Some (name col))"
  by (auto simp add: stage_defs column_record_defs Let_def split_def)

text \<open>
  C10. When the inspector flags more than one column of a table as primary key,
  \<open>getPrimaryKeyColumn\<close> returns the name of the first flagged column, in the order the
  inspector reports them, and \<open>getColumns\<close> marks the column of that name and no other
  as primary key. The table's columns have distinct names, and the flagged column is
  one of them.
\<close>

theorem composite_primary_key_first_flagged:
  assumes flagged:
      "filter (\<lambda>c. is_primary_key c = True) (inspector_columnInfo svc t) = p # q # rest"
    and dist: "distinct (map fst (client_columnInfo svc t))"
    and mem: "InspectorColumn.name p \<in> set (map fst (client_columnInfo svc t))"
  shows "getPrimaryKeyColumn svc t = Some (InspectorColumn.name p)
     \<and> map name (filter primaryKey (getColumns svc deps t sc)) = [InspectorColumn.name p]
     \<and> (\<forall>col \<in> set (getColumns svc deps t sc).
           primaryKey col = (name col = InspectorColumn.name p))"
proof -
  have pk: "getPrimaryKeyColumn svc t = Some (InspectorColumn.name p)"
    using find_filter_Cons [OF flagged] by (simp add: getPrimaryKeyColumn_def)
  have each: "\<forall>col \<in> set (getColumns svc deps t sc).
           primaryKey col = (name col = InspectorColumn.name p)"
    using primaryKey_getColumns [of _ svc deps t sc] pk by auto
  have "filter primaryKey (getColumns svc deps t sc) =
          filter (\<lambda>col. name col = InspectorColumn.name p) (getColumns svc deps t sc)"
    using each by (intro filter_cong) auto
  then have "map name (filter primaryKey (getColumns svc deps t sc)) =
          filter (\<lambda>n. n = InspectorColumn.name p) (map name (getColumns svc deps t sc))"
    by (simp add: filter_map comp_def)
  also have "\<dots> = [InspectorColumn.name p]"
    using filter_eq_distinct [OF dist mem] by (simp add: names_getColumns)
  finally show ?thesis using pk each by blast
qed

text \<open>
  In the example \<open>memberships\<close> has the composite key \<open>user_id\<close>, \<open>team_id\<close>: the primary
  key column is \<open>user_id\<close>, and \<open>team_id\<close> is not marked.
\<close>

theorem composite_primary_key_first_flagged_witness:
  "filter (\<lambda>c. is_primary_key c = True) (inspector_columnInfo example_svc ''memberships'') =
     [\<lparr>InspectorColumn.name = ''user_id'', data_type = ''integer'', is_primary_key = True\<rparr>,
      \<lparr>InspectorColumn.name = ''team_id'', data_type = ''integer'', is_primary_key = True\<rparr>]
   \<and> distinct (map fst (client_columnInfo example_svc ''memberships''))
   \<and> ''user_id'' \<in> set (map fst (client_columnInfo example_svc ''memberships''))
   \<and> getPrimaryKeyColumn example_svc ''memberships'' = Some ''user_id''
   \<and> map name (filter primaryKey (getColumns example_svc example_deps ''memberships'' None))
       = [''user_id'']
   \<and> map primaryKey (getColumns example_svc example_deps ''memberships'' None)
       = [True, False, False]"
  using composite_primary_key_first_flagged
    [of example_svc "''memberships''"
        "\<lparr>InspectorColumn.name = ''user_id'', data_type = ''integer'', is_primary_key = True\<rparr>"
        "\<lparr>InspectorColumn.name = ''team_id'', data_type = ''integer'', is_primary_key = True\<rparr>"
        "[]" example_deps None]
  by (simp add: example_defs eval_defs)

section \<open>Properties of the record operations\<close>

text \<open>With a primary key, \<open>deleteRecords\<close> hands the client one delete on the key's values.\<close>

lemma deleteRecords_example:
  "deleteRecords example_svc ''users'' [1, 2, 3] =
     (Inr (JArr []),
      [\<lparr>qTable = Some ''users'', qMethod = Delete, qSelect = None, qLimit = None,
        qOffset = None, qWhere = [WhereIn ''id'' [1, 2, 3]], qOrderBy = [],
        qReturning = None\<rparr>])"
  by (simp add: deleteRecords_def getPrimaryKeyColumn_def example_svc_def knex_defs)

text \<open>
  C8. On a table for which \<open>getPrimaryKeyColumn\<close> finds no primary key column, each of
  \<open>getRecord\<close>, \<open>createRecord\<close>, \<open>updateRecord\<close>, \<open>deleteRecord\<close> and \<open>deleteRecords\<close>
  throws the error that no primary key can be found for the table, and has handed no
  query to the client.
\<close>

theorem no_primary_key_fails_fast:
  assumes "getPrimaryKeyColumn svc t = None"
  shows "getRecord svc t recordId select =
           (Inl (Error (''Can't find a primary key for table '' @ t @ ''.'')), [])
     \<and> createRecord svc t data =
           (Inl (Error (''Can't find a primary key for table '' @ t @ ''.'')), [])
     \<and> updateRecord svc t recordId data =
           (Inl (Error (''Can't find a primary key for table '' @ t @ ''.'')), [])
     \<and> deleteRecord svc t recordId =
           (Inl (Error (''Can't find a primary key for table '' @ t @ ''.'')), [])
     \<and> deleteRecords svc t recordIds =
           (Inl (Error (''Can't find a primary key for table '' @ t @ ''.'')), [])"
  using assms
  by (simp add: getRecord_def createRecord_def updateRecord_def deleteRecord_def
      deleteRecords_def noPrimaryKey_def)

text \<open>In the example \<open>logs\<close> has no primary key, and each of the five operations fails.\<close>

theorem no_primary_key_fails_fast_witness:
  "getPrimaryKeyColumn example_svc ''logs'' = None
   \<and> getRecord example_svc ''logs'' ''7'' [''message''] =
       (Inl (Error ''Can't find a primary key for table logs.''), [])
   \<and> createRecord example_svc ''logs'' (JObj [(''message'', JStr ''started'')]) =
       (Inl (Error ''Can't find a primary key for table logs.''), [])
   \<and> updateRecord example_svc ''logs'' ''7'' (JObj [(''message'', JStr ''stopped'')]) =
       (Inl (Error ''Can't find a primary key for table logs.''), [])
   \<and> deleteRecord example_svc ''logs'' ''7'' =
       (Inl (Error ''Can't find a primary key for table logs.''), [])
   \<and> deleteRecords example_svc ''logs'' [1, 2, 3] =
       (Inl (Error ''Can't find a primary key for table logs.''), [])"
  using no_primary_key_fails_fast
    [of example_svc "''logs''" "''7''" "[''message'']" "JObj [(''message'', JStr ''started'')]"]
    no_primary_key_fails_fast
    [of example_svc "''logs''" "''7''" "[''message'']" "JObj [(''message'', JStr ''stopped'')]"
        "[1, 2, 3]"]
  by (simp add: getPrimaryKeyColumn_def example_svc_def)

section \<open>Properties of the validation schema\<close>

text \<open>
  A definition named \<open>Shop\<close>, of type \<open>mysql\<close>, with a url in its options, is rejected:
  the only type the schema takes is \<open>postgresql\<close>.
\<close>

theorem schema_mysql_counterexample:
  "\<not> Joi_accepts schema
       (JObj [(''name'', JStr ''Shop''), (''type'', JStr ''mysql''),
              (''options'', JObj [(''url'', JStr ''mysql://localhost/shop'')])])"
  by (simp add: Joi_defs property_def)

text \<open>
  C9, as the code has it. An input object that has an \<open>options\<close> member is accepted
  if and only if it has no member other than \<open>name\<close>, \<open>options\<close> and \<open>type\<close>, its \<open>name\<close>
  is a string of at least 3 characters, its \<open>type\<close> is the string \<open>postgresql\<close>, and its
  \<open>options\<close> is an object whose only member is \<open>url\<close>, a string that is not empty.
\<close>

theorem schema_accepts_iff:
  assumes "property kvs ''options'' \<noteq> JUndefined"
  shows "Joi_accepts schema (JObj kvs) \<longleftrightarrow>
     (set (map fst kvs) \<subseteq> {''name'', ''options'', ''type''}
      \<and> (\<exists>s. property kvs ''name'' = JStr s \<and> 3 \<le> length s)
      \<and> property kvs ''type'' = JStr ''postgresql''
      \<and> (\<exists>okvs u. property kvs ''options'' = JObj okvs
             \<and> set (map fst okvs) \<subseteq> {''url''}
             \<and> property okvs ''url'' = JStr u \<and> u \<noteq> []))"
  using assms
  by (auto simp add: Joi_defs list_all_iff split: jsvalue.splits)

text \<open>The same definition with the type \<open>postgresql\<close> is accepted.\<close>

theorem schema_accepts_iff_witness:
  "property [(''name'', JStr ''Shop''), (''type'', JStr ''postgresql''),
             (''options'', JObj [(''url'', JStr ''postgresql://localhost/shop'')])] ''options''
     \<noteq> JUndefined
   \<and> Joi_accepts schema
       (JObj [(''name'', JStr ''Shop''), (''type'', JStr ''postgresql''),
              (''options'', JObj [(''url'', JStr ''postgresql://localhost/shop'')])])"
  using schema_accepts_iff
    [of "[(''name'', JStr ''Shop''), (''type'', JStr ''postgresql''),
          (''options'', JObj [(''url'', JStr ''postgresql://localhost/shop'')])]"]
  by (simp add: property_def)

end
